theory Spec2Isabelle
  imports Complex_Main
begin

section \<open>Data model of the churn predictor (app.py)\<close>

text \<open>
  The script is a Streamlit page: it loads a pickled scikit-learn pipeline, reads ten
  widget values, builds a one-row pandas DataFrame from them, adds three derived
  columns, scores the frame and renders a verdict.

  Numbers. A Python \<open>int\<close> is an \<open>int\<close>. A finite float64 is modelled by the real
  number it denotes and its arithmetic by exact real arithmetic: rounding is not
  modelled. The only operation of the script that can leave the finite floats is the
  true division of two columns, where numpy returns an infinity or a NaN for a zero
  divisor instead of raising; its result type \<open>float64\<close> keeps these outcomes apart.
\<close>

datatype float64 = Finite real | PosInf | NegInf | NaN

text \<open>
  Elementwise \<open>a / b\<close> of two numeric columns. Both divisors of the script are sums
  \<open>x + 1\<close>, whose zero is the positive zero, so the sign of the infinity is the sign
  of the numerator.
\<close>

definition truediv :: "real \<Rightarrow> real \<Rightarrow> float64" where
  "truediv a b =
     (if b = 0 then (if a = 0 then NaN else if 0 < a then PosInf else NegInf)
      else Finite (a / b))"

text \<open>The options of the four select boxes (lines 67 to 72).\<close>

datatype gender = Male | Female | Other
datatype country = US | UK | DE | FR | CA | IN
datatype subscription = Free | Premium | Student
datatype device = Mobile | Web | Desktop

text \<open>
  The values of the ten widgets (lines 66 to 80), under the names of the script's
  variables with the suffix \<open>_in\<close>.
\<close>

record widgets =
  age_in :: int
  gender_in :: gender
  country_in :: country
  subscription_type_in :: subscription
  device_type_in :: device
  listening_time_in :: real
  songs_played_in :: int
  skip_rate_in :: real
  ads_listened_in :: int
  offline_listening_in :: int

text \<open>
  What the widgets can return: the bounds of the two sliders, the \<open>min_value\<close> of the
  three number inputs and the two options of the radio button.
\<close>

definition widget_range :: "widgets \<Rightarrow> bool" where
  "widget_range w =
     (18 \<le> age_in w \<and> age_in w \<le> 70 \<and>
      0 \<le> listening_time_in w \<and>
      0 \<le> songs_played_in w \<and>
      0 \<le> skip_rate_in w \<and> skip_rate_in w \<le> 1 \<and>
      0 \<le> ads_listened_in w \<and>
      (offline_listening_in w = 0 \<or> offline_listening_in w = 1))"

text \<open>
  The one-row DataFrame \<open>input_data\<close>: one field per column, the cell of the single
  row as its value. The three derived columns do not exist until they are assigned.
\<close>

record frame =
  age :: int
  gender :: gender
  country :: country
  subscription_type :: subscription
  device_type :: device
  listening_time :: real
  songs_played_per_day :: int
  skip_rate :: real
  ads_listened_per_week :: int
  offline_listening :: int
  ad_burden :: "float64 option"
  satisfaction_score :: "real option"
  time_per_song :: "float64 option"

text \<open>Lines 92 to 103: \<open>pd.DataFrame({...})\<close> over the widget values.\<close>

definition input_data :: "widgets \<Rightarrow> frame" where
  "input_data w =
     \<lparr>age = age_in w,
      gender = gender_in w,
      country = country_in w,
      subscription_type = subscription_type_in w,
      device_type = device_type_in w,
      listening_time = listening_time_in w,
      songs_played_per_day = songs_played_in w,
      skip_rate = skip_rate_in w,
      ads_listened_per_week = ads_listened_in w,
      offline_listening = offline_listening_in w,
      ad_burden = None,
      satisfaction_score = None,
      time_per_song = None\<rparr>"

section \<open>Feature engineering (lines 107 to 109)\<close>

text \<open>
  Three column assignments in sequence on the same frame; each reads the frame as the
  previous assignment left it. \<open>songs_played_per_day + 1\<close> is integer addition, the
  product and the quotients are float64.
\<close>

definition feature_engineering :: "frame \<Rightarrow> frame" where
  "feature_engineering df0 =
     (let df1 = df0\<lparr>ad_burden :=
                  Some (truediv (of_int (ads_listened_per_week df0)) (listening_time df0 + 1))\<rparr>;
          df2 = df1\<lparr>satisfaction_score :=
                  Some (of_int (songs_played_per_day df1) * (1 - skip_rate df1))\<rparr>;
          df3 = df2\<lparr>time_per_song :=
                  Some (truediv (listening_time df2) (of_int (songs_played_per_day df2 + 1)))\<rparr>
      in df3)"

section \<open>Decision rule (lines 117 and 118)\<close>

definition threshold :: real where
  "threshold = 35 / 100"

definition prediction :: "real \<Rightarrow> int" where
  "prediction churn_proba = (if churn_proba \<ge> threshold then 1 else 0)"

text \<open>The same comparison with the cutoff as a parameter, to compare cutoffs.\<close>

definition prediction_at :: "real \<Rightarrow> real \<Rightarrow> int" where
  "prediction_at cutoff churn_proba = (if churn_proba \<ge> cutoff then 1 else 0)"

section \<open>The script run\<close>

text \<open>
  A Python exception: the names of its class and of the classes it derives from, and
  the text \<open>str(e)\<close>. An \<open>except C\<close> clause catches the instances of \<open>C\<close>.
\<close>

record exn =
  exn_classes :: "string list"
  exn_str :: string

definition isinstance :: "exn \<Rightarrow> string \<Rightarrow> bool" where
  "isinstance e c = (c \<in> set (exn_classes e))"

text \<open>
  The loaded pipeline, as the one expression the script evaluates on it:
  \<open>pipeline.predict_proba(input_data)[0, 1]\<close> returns a probability or raises.
\<close>

type_synonym pipeline = "frame \<Rightarrow> exn + real"

text \<open>
  The fixed texts of the page (Korean in the script), by what they say, and the
  Streamlit calls that put them on the page. \<open>St_metric\<close> carries
  \<open>churn_proba * 100\<close>, which the script formats to one decimal.
\<close>

datatype message =
    Model_file_missing
  | Your_user_is
  | High_risk
  | Action_plan
  | Action_coupon
  | Action_playlist
  | Loyal_user
  | No_action_needed
  | Prediction_failed string
  | Check_input_format

datatype event =
    St_error message
  | St_header message
  | St_metric real
  | St_progress real
  | St_write message
  | St_success message
  | St_warning message
  | St_expander frame

text \<open>
  Lines 38 to 48. \<open>joblib_load\<close> is the outcome of
  \<open>joblib.load('models/spotify_churn_model.pkl')\<close>. A \<open>FileNotFoundError\<close> is
  caught, reported and turned into \<open>None\<close>; any other exception leaves the function.
\<close>

definition load_model_pipeline :: "exn + pipeline \<Rightarrow> exn + event list \<times> pipeline option" where
  "load_model_pipeline joblib_load =
     (case joblib_load of
        Inr pipeline \<Rightarrow> Inr ([], Some pipeline)
      | Inl e \<Rightarrow>
          if isinstance e ''FileNotFoundError''
          then Inr ([St_error Model_file_missing], None)
          else Inl e)"

text \<open>
  Lines 112 to 144: the \<open>try\<close> block around scoring and rendering, and its
  \<open>except Exception\<close> handler. The scoring call is the one place of the block that
  is modelled as able to raise: the rendering calls receive a probability, which
  \<open>st.metric\<close> and \<open>st.progress\<close> accept.
\<close>

definition predict_block :: "pipeline \<Rightarrow> frame \<Rightarrow> exn + event list" where
  "predict_block pipeline df =
     (case pipeline df of
        Inr churn_proba \<Rightarrow>
          Inr ([St_header Your_user_is,
                St_metric (churn_proba * 100),
                St_progress churn_proba]
               @ (if prediction churn_proba = 1
                  then [St_error High_risk, St_write Action_plan,
                        St_write Action_coupon, St_write Action_playlist]
                  else [St_success Loyal_user, St_write No_action_needed])
               @ [St_expander df])
      | Inl e \<Rightarrow>
          if isinstance e ''Exception''
          then Inr [St_error (Prediction_failed (exn_str e)), St_warning Check_input_format]
          else Inl e)"

text \<open>
  One run of the script from line 38 on: what \<open>joblib.load\<close> does, the widget
  values and whether the button was pressed. The result is the list of elements put
  on the page by the loader and by the prediction section, or the exception that ended
  the run uncaught. \<open>st.stop()\<close> ends the run with the page as it is. The title, the
  style sheet and the input form are the same in every run and are left out.
  \<open>st.cache_resource\<close> keeps what the loader returned for the later runs of the
  process; a run is given the outcome of the call it sees, fresh or kept.
\<close>

record session =
  joblib_load :: "exn + pipeline"
  widget_values :: widgets
  button :: bool

definition app :: "session \<Rightarrow> exn + event list" where
  "app s =
     (case load_model_pipeline (joblib_load s) of
        Inl e \<Rightarrow> Inl e
      | Inr (shown, pipeline) \<Rightarrow>
          if button s then
            (case pipeline of
               None \<Rightarrow> Inr shown
             | Some pl \<Rightarrow>
                 (case predict_block pl (feature_engineering (input_data (widget_values s))) of
                    Inl e \<Rightarrow> Inl e
                  | Inr rendered \<Rightarrow> Inr (shown @ rendered)))
          else Inr shown)"

text \<open>
  The elements that carry a prediction result: the probability (metric and progress
  bar), the verdict and the recommended actions.
\<close>

definition is_result_event :: "event \<Rightarrow> bool" where
  "is_result_event ev =
     (case ev of
        St_metric p \<Rightarrow> True
      | St_progress p \<Rightarrow> True
      | St_error m \<Rightarrow> m = High_risk
      | St_success m \<Rightarrow> True
      | St_write m \<Rightarrow> True
      | St_header m \<Rightarrow> True
      | St_expander df \<Rightarrow> True
      | St_warning m \<Rightarrow> False)"

definition prediction_result :: "exn + event list \<Rightarrow> event list" where
  "prediction_result out =
     (case out of Inl e \<Rightarrow> [] | Inr shown \<Rightarrow> filter is_result_event shown)"

section \<open>Concrete inputs\<close>

text \<open>
  The default values of the widgets, a second profile with no listening time and no
  songs, three exceptions with their class hierarchy, and a pipeline whose scoring
  call raises.
\<close>

definition scenario_1 :: widgets where
  "scenario_1 =
     \<lparr>age_in = 30, gender_in = Male, country_in = US, subscription_type_in = Free,
      device_type_in = Mobile, listening_time_in = 60, songs_played_in = 20,
      skip_rate_in = 3 / 10, ads_listened_in = 5, offline_listening_in = 0\<rparr>"

definition scenario_2 :: widgets where
  "scenario_2 = scenario_1\<lparr>listening_time_in := 0, songs_played_in := 0\<rparr>"

definition value_error :: "string \<Rightarrow> exn" where
  "value_error txt =
     \<lparr>exn_classes = [''ValueError'', ''Exception'', ''BaseException'', ''object''],
      exn_str = txt\<rparr>"

definition type_error :: "string \<Rightarrow> exn" where
  "type_error txt =
     \<lparr>exn_classes = [''TypeError'', ''Exception'', ''BaseException'', ''object''],
      exn_str = txt\<rparr>"

definition file_not_found_error :: "string \<Rightarrow> exn" where
  "file_not_found_error txt =
     \<lparr>exn_classes = [''FileNotFoundError'', ''OSError'', ''Exception'', ''BaseException'',
        ''object''],
      exn_str = txt\<rparr>"

definition failing_pipeline :: "exn \<Rightarrow> pipeline" where
  "failing_pipeline e df = Inl e"

text \<open>
  Two runs with the button pressed: one where the model file is missing, one where the
  pipeline loads and its scoring call raises the given exception.
\<close>

definition model_missing :: session where
  "model_missing =
     \<lparr>joblib_load = Inl (file_not_found_error ''models/spotify_churn_model.pkl''),
      widget_values = scenario_1, button = True\<rparr>"

definition scoring_raises :: "exn \<Rightarrow> session" where
  "scoring_raises e =
     \<lparr>joblib_load = Inr (failing_pipeline e), widget_values = scenario_1, button = True\<rparr>"

section \<open>Properties of the feature engineering block\<close>

lemma widget_range_scenario_1: "widget_range scenario_1"
  by (simp add: widget_range_def scenario_1_def)

text \<open>
  Claim C1. For every profile the widgets can deliver, the feature engineering block
  leaves the ten input columns as they are and adds exactly three columns:
  \<open>ad_burden = ads_listened_per_week / (listening_time + 1)\<close>,
  \<open>satisfaction_score = songs_played_per_day * (1 - skip_rate)\<close> and
  \<open>time_per_song = listening_time / (songs_played_per_day + 1)\<close>, each computed from
  the values the user entered.
\<close>

theorem feature_engineering_formulas:
  assumes "widget_range w"
  shows "feature_engineering (input_data w) =
    (input_data w)
      \<lparr>ad_burden := Some (Finite (of_int (ads_listened_in w) / (listening_time_in w + 1))),
       satisfaction_score := Some (of_int (songs_played_in w) * (1 - skip_rate_in w)),
       time_per_song := Some (Finite (listening_time_in w / (of_int (songs_played_in w) + 1)))\<rparr>"
proof -
  from assms have lt: "listening_time_in w + 1 \<noteq> 0" and sp: "(of_int (songs_played_in w) :: real) + 1 \<noteq> 0"
    by (simp_all add: widget_range_def add_nonneg_eq_0_iff)
  then show ?thesis
    by (simp add: feature_engineering_def input_data_def truediv_def Let_def)
qed

theorem feature_engineering_formulas_witness:
  "widget_range scenario_1 \<and>
   ad_burden (feature_engineering (input_data scenario_1)) = Some (Finite (5 / 61)) \<and>
   satisfaction_score (feature_engineering (input_data scenario_1)) = Some 14 \<and>
   time_per_song (feature_engineering (input_data scenario_1)) = Some (Finite (60 / 21))"
  using feature_engineering_formulas [OF widget_range_scenario_1] widget_range_scenario_1
  by (simp add: scenario_1_def)

text \<open>
  Claim C7. For the default profile (listening time 60, 20 songs a day, skip rate 0.3,
  5 ads a week) the block computes \<open>ad_burden = 5/61\<close>, about 0.0820,
  \<open>satisfaction_score = 20 * 0.7 = 14\<close> and \<open>time_per_song = 60/21\<close>, about 2.857.
\<close>

theorem scenario_1_features:
  "ad_burden (feature_engineering (input_data scenario_1)) = Some (Finite (5 / 61)) \<and>
   satisfaction_score (feature_engineering (input_data scenario_1)) = Some (20 * (7 / 10)) \<and>
   satisfaction_score (feature_engineering (input_data scenario_1)) = Some 14 \<and>
   time_per_song (feature_engineering (input_data scenario_1)) = Some (Finite (60 / 21)) \<and>
   \<bar>5 / 61 - 820 / 10000\<bar> < (5 / 100000 :: real) \<and>
   \<bar>60 / 21 - 2857 / 1000\<bar> < (5 / 10000 :: real)"
  by (simp add: feature_engineering_def input_data_def truediv_def Let_def scenario_1_def)

text \<open>
  A zero divisor does not raise: with a listening time of -1, which no widget returns,
  the first quotient is an infinity. The bounds of the widgets are what keeps the
  quotients finite.
\<close>

lemma zero_divisor_not_finite:
  "ad_burden (feature_engineering (input_data (scenario_1\<lparr>listening_time_in := - 1\<rparr>))) =
     Some PosInf"
  by (simp add: feature_engineering_def input_data_def truediv_def Let_def scenario_1_def)

text \<open>
  Claim C4. For every input with a non-negative listening time and a non-negative
  number of songs, both divisors are at least 1, so no division by zero occurs and the
  three derived values are finite. With no listening time and no songs the block
  yields \<open>ad_burden = ads_listened_per_week / 1\<close> and \<open>time_per_song = 0\<close>.
\<close>

theorem feature_engineering_finite:
  assumes "0 \<le> listening_time_in w" and "0 \<le> songs_played_in w"
  shows "1 \<le> listening_time (input_data w) + 1 \<and>
         1 \<le> songs_played_per_day (input_data w) + 1 \<and>
         ad_burden (feature_engineering (input_data w)) =
           Some (Finite (of_int (ads_listened_in w) / (listening_time_in w + 1))) \<and>
         satisfaction_score (feature_engineering (input_data w)) =
           Some (of_int (songs_played_in w) * (1 - skip_rate_in w)) \<and>
         time_per_song (feature_engineering (input_data w)) =
           Some (Finite (listening_time_in w / (of_int (songs_played_in w) + 1))) \<and>
         (listening_time_in w = 0 \<and> songs_played_in w = 0 \<longrightarrow>
            ad_burden (feature_engineering (input_data w)) =
              Some (Finite (of_int (ads_listened_in w) / 1)) \<and>
            time_per_song (feature_engineering (input_data w)) = Some (Finite 0))"
proof -
  from assms have "listening_time_in w + 1 \<noteq> 0" and "(of_int (songs_played_in w) :: real) + 1 \<noteq> 0"
    by (simp_all add: add_nonneg_eq_0_iff)
  with assms show ?thesis
    by (simp add: feature_engineering_def input_data_def truediv_def Let_def)
qed

theorem feature_engineering_finite_witness:
  "0 \<le> listening_time_in scenario_2 \<and> 0 \<le> songs_played_in scenario_2 \<and>
   listening_time_in scenario_2 = 0 \<and> songs_played_in scenario_2 = 0 \<and>
   ad_burden (feature_engineering (input_data scenario_2)) = Some (Finite 5) \<and>
   satisfaction_score (feature_engineering (input_data scenario_2)) = Some 0 \<and>
   time_per_song (feature_engineering (input_data scenario_2)) = Some (Finite 0)"
  using feature_engineering_finite [of scenario_2]
  by (simp add: scenario_2_def scenario_1_def)

text \<open>
  Claim C10. For every input with a skip rate between 0 and 1 and a non-negative
  number of songs, the satisfaction score lies between 0 and the number of songs.
\<close>

theorem satisfaction_score_bounds:
  assumes "0 \<le> skip_rate_in w" and "skip_rate_in w \<le> 1" and "0 \<le> songs_played_in w"
  shows "\<exists>s. satisfaction_score (feature_engineering (input_data w)) = Some s \<and>
             0 \<le> s \<and> s \<le> of_int (songs_played_in w)"
proof -
  let ?n = "of_int (songs_played_in w) :: real"
  from assms have n: "0 \<le> ?n" by simp
  from assms have k: "0 \<le> 1 - skip_rate_in w" "1 - skip_rate_in w \<le> 1" by simp_all
  have lo: "0 \<le> ?n * (1 - skip_rate_in w)"
    using n k(1) by (rule mult_nonneg_nonneg)
  have hi: "?n * (1 - skip_rate_in w) \<le> ?n"
    using n k(2) by (simp add: mult_left_le)
  have "satisfaction_score (feature_engineering (input_data w)) = Some (?n * (1 - skip_rate_in w))"
    by (simp add: feature_engineering_def input_data_def Let_def)
  with lo hi show ?thesis by blast
qed

theorem satisfaction_score_bounds_witness:
  "0 \<le> skip_rate_in scenario_1 \<and> skip_rate_in scenario_1 \<le> 1 \<and> 0 \<le> songs_played_in scenario_1 \<and>
   (\<exists>s. satisfaction_score (feature_engineering (input_data scenario_1)) = Some s \<and>
        0 \<le> s \<and> s \<le> 20)"
  using satisfaction_score_bounds [of scenario_1]
  by (simp add: scenario_1_def)

section \<open>Properties of the decision rule\<close>

text \<open>
  Claim C2. The comparison is inclusive: a user is classified as churn risk exactly
  when the probability is at least the threshold. A probability of 0.35 is a risk,
  0.349999 is not.
\<close>

theorem threshold_inclusive:
  "(prediction p = 1) = (p \<ge> threshold) \<and>
   (prediction p = 0) = (p < threshold) \<and>
   threshold = 35 / 100 \<and>
   prediction threshold = 1 \<and>
   prediction (35 / 100) = 1 \<and>
   prediction (349999 / 1000000) = 0"
  by (simp add: prediction_def threshold_def)

text \<open>
  Claim C3. The threshold is the constant 0.35, not 0.5, and the classification
  compares against it. With 0.5 in its place, exactly the probabilities from 0.35 up
  to, but not including, 0.5 would be classified differently.
\<close>

theorem threshold_constant:
  "threshold = 35 / 100 \<and> threshold \<noteq> 1 / 2 \<and>
   prediction p = prediction_at threshold p \<and>
   (35 / 100 \<le> p \<and> p < 1 / 2 \<longrightarrow> prediction p = 1 \<and> prediction_at (1 / 2) p = 0) \<and>
   (p < 35 / 100 \<or> 1 / 2 \<le> p \<longrightarrow> prediction p = prediction_at (1 / 2) p)"
  by (simp add: prediction_def prediction_at_def threshold_def)

theorem threshold_constant_witness:
  "(35 / 100 \<le> (4 / 10 :: real) \<and> (4 / 10 :: real) < 1 / 2) \<and>
   prediction (4 / 10) = prediction_at threshold (4 / 10) \<and>
   prediction (4 / 10) = 1 \<and> prediction_at (1 / 2) (4 / 10) = 0"
  using threshold_constant [of "4 / 10"] by simp

text \<open>
  Claim C5. The classification is monotone in the probability: if \<open>p1\<close> is a churn
  risk and \<open>p1 \<le> p2\<close>, then \<open>p2\<close> is a churn risk.
\<close>

theorem churn_risk_monotone:
  assumes "p1 \<le> p2" and "prediction p1 = 1"
  shows "prediction p2 = 1"
  using assms by (simp add: prediction_def split: if_splits)

theorem churn_risk_monotone_witness:
  "(35 / 100 :: real) \<le> 9 / 10 \<and> prediction (35 / 100) = 1 \<and> prediction (9 / 10) = 1"
proof -
  have le: "(35 / 100 :: real) \<le> 9 / 10" by simp
  have risk: "prediction (35 / 100) = 1" by (simp add: prediction_def threshold_def)
  from churn_risk_monotone [OF le risk] le risk show ?thesis by simp
qed

section \<open>Properties of the script run\<close>

text \<open>
  What a run shows when loading fails, and when the scoring call raises.
\<close>

lemma app_load_failure:
  assumes "joblib_load s = Inl e"
  shows "app s =
           (if isinstance e ''FileNotFoundError'' then Inr [St_error Model_file_missing] else Inl e)"
  using assms by (simp add: app_def load_model_pipeline_def)

lemma app_scoring_failure:
  assumes "joblib_load s = Inr pl" and "button s"
    and "pl (feature_engineering (input_data (widget_values s))) = Inl e"
  shows "app s =
           (if isinstance e ''Exception''
            then Inr [St_error (Prediction_failed (exn_str e)), St_warning Check_input_format]
            else Inl e)"
  using assms by (simp add: app_def load_model_pipeline_def predict_block_def)

text \<open>
  Claim C8. When loading the model fails, no run produces a prediction result. A
  missing file leaves only the error message about the model file on the page, any
  other loading error ends the run with that exception. The outcome does not depend
  on the widget values or on the button, no classifier is called, and the outcome
  differs from that of every run whose scoring call raised an exception the handler
  catches.
\<close>

theorem load_failure_no_prediction:
  assumes "joblib_load s = Inl e"
  shows "app s =
           (if isinstance e ''FileNotFoundError'' then Inr [St_error Model_file_missing] else Inl e) \<and>
         prediction_result (app s) = [] \<and>
         app (s\<lparr>widget_values := w, button := b\<rparr>) = app s \<and>
         (joblib_load s' = Inr pl \<and> button s' \<and>
            pl (feature_engineering (input_data (widget_values s'))) = Inl e' \<and>
            isinstance e' ''Exception'' \<longrightarrow> app s' \<noteq> app s)"
proof -
  have out: "app s =
      (if isinstance e ''FileNotFoundError'' then Inr [St_error Model_file_missing] else Inl e)"
    using assms by (rule app_load_failure)
  have none: "prediction_result (app s) = []"
    by (simp add: out prediction_result_def is_result_event_def)
  have "joblib_load (s\<lparr>widget_values := w, button := b\<rparr>) = Inl e"
    using assms by simp
  then have indep: "app (s\<lparr>widget_values := w, button := b\<rparr>) = app s"
    by (simp add: app_load_failure out)
  have distinct: "app s' \<noteq> app s"
    if "joblib_load s' = Inr pl \<and> button s' \<and>
        pl (feature_engineering (input_data (widget_values s'))) = Inl e' \<and>
        isinstance e' ''Exception''"
  proof -
    from that have "app s' =
        Inr [St_error (Prediction_failed (exn_str e')), St_warning Check_input_format]"
      by (simp add: app_scoring_failure)
    then show ?thesis by (simp add: out)
  qed
  from out none indep distinct show ?thesis by blast
qed

theorem load_failure_no_prediction_witness:
  "joblib_load model_missing = Inl (file_not_found_error ''models/spotify_churn_model.pkl'') \<and>
   app model_missing = Inr [St_error Model_file_missing] \<and>
   prediction_result (app model_missing) = [] \<and>
   app (model_missing\<lparr>widget_values := scenario_2, button := False\<rparr>) = app model_missing \<and>
   joblib_load (scoring_raises (value_error ''columns are missing'')) =
     Inr (failing_pipeline (value_error ''columns are missing'')) \<and>
   button (scoring_raises (value_error ''columns are missing'')) \<and>
   isinstance (value_error ''columns are missing'') ''Exception'' \<and>
   app (scoring_raises (value_error ''columns are missing'')) \<noteq> app model_missing"
proof -
  have load: "joblib_load model_missing =
      Inl (file_not_found_error ''models/spotify_churn_model.pkl'')"
    by (simp add: model_missing_def)
  have fnf: "isinstance (file_not_found_error ''models/spotify_churn_model.pkl'')
      ''FileNotFoundError''"
    by (simp add: isinstance_def file_not_found_error_def)
  have other: "joblib_load (scoring_raises (value_error ''columns are missing'')) =
      Inr (failing_pipeline (value_error ''columns are missing'')) \<and>
    button (scoring_raises (value_error ''columns are missing'')) \<and>
    failing_pipeline (value_error ''columns are missing'')
      (feature_engineering (input_data (widget_values
         (scoring_raises (value_error ''columns are missing''))))) =
      Inl (value_error ''columns are missing'') \<and>
    isinstance (value_error ''columns are missing'') ''Exception''"
    by (simp add: scoring_raises_def failing_pipeline_def isinstance_def value_error_def)
  note facts = load_failure_no_prediction
    [OF load, where w = scenario_2 and b = False
       and s' = "scoring_raises (value_error ''columns are missing'')"
       and pl = "failing_pipeline (value_error ''columns are missing'')"
       and e' = "value_error ''columns are missing''"]
  have page: "app model_missing = Inr [St_error Model_file_missing]"
    using conjunct1 [OF facts] fnf by simp
  have no_result: "prediction_result (app model_missing) = []"
    by (rule conjunct1 [OF conjunct2 [OF facts]])
  have same: "app (model_missing\<lparr>widget_values := scenario_2, button := False\<rparr>) =
      app model_missing"
    by (rule conjunct1 [OF conjunct2 [OF conjunct2 [OF facts]]])
  have differs: "app (scoring_raises (value_error ''columns are missing'')) \<noteq> app model_missing"
    by (rule mp [OF conjunct2 [OF conjunct2 [OF conjunct2 [OF facts]]] other])
  from load page no_result same other differs show ?thesis by blast
qed

text \<open>
  Claim C9, as stated, asks for a distinction of the kind of a scoring error that a
  caller can read. The handler is a single \<open>except Exception\<close>: a \<open>ValueError\<close> and
  a \<open>TypeError\<close> with the same text leave the same page.
\<close>

theorem error_kind_not_distinguished_counterexample:
  "app (scoring_raises (value_error ''columns are missing'')) =
     app (scoring_raises (type_error ''columns are missing'')) \<and>
   hd (exn_classes (value_error ''columns are missing'')) = ''ValueError'' \<and>
   hd (exn_classes (type_error ''columns are missing'')) = ''TypeError''"
  by (simp add: app_def load_model_pipeline_def predict_block_def scoring_raises_def
      failing_pipeline_def isinstance_def value_error_def type_error_def)

text \<open>
  Claim C9, amended. When the scoring call raises, the run shows no prediction result.
  An instance of \<open>Exception\<close> is caught and shown as an error message that carries the
  text of the exception, followed by a warning to check the input format; the page
  depends on the exception through its text only. Any other exception ends the run
  uncaught.
\<close>

theorem scoring_failure_surfaced:
  assumes "joblib_load s = Inr pl" and "button s"
    and "pl (feature_engineering (input_data (widget_values s))) = Inl e"
  shows "app s =
           (if isinstance e ''Exception''
            then Inr [St_error (Prediction_failed (exn_str e)), St_warning Check_input_format]
            else Inl e) \<and>
         prediction_result (app s) = []"
proof -
  have out: "app s =
      (if isinstance e ''Exception''
       then Inr [St_error (Prediction_failed (exn_str e)), St_warning Check_input_format]
       else Inl e)"
    using assms by (rule app_scoring_failure)
  have "prediction_result (app s) = []"
    by (simp add: out prediction_result_def is_result_event_def)
  with out show ?thesis by simp
qed

theorem scoring_failure_surfaced_witness:
  "joblib_load (scoring_raises (value_error ''columns are missing'')) =
     Inr (failing_pipeline (value_error ''columns are missing'')) \<and>
   button (scoring_raises (value_error ''columns are missing'')) \<and>
   failing_pipeline (value_error ''columns are missing'')
     (feature_engineering (input_data (widget_values
        (scoring_raises (value_error ''columns are missing''))))) =
     Inl (value_error ''columns are missing'') \<and>
   app (scoring_raises (value_error ''columns are missing'')) =
     Inr [St_error (Prediction_failed ''columns are missing''), St_warning Check_input_format] \<and>
   prediction_result (app (scoring_raises (value_error ''columns are missing''))) = []"
proof -
  have load: "joblib_load (scoring_raises (value_error ''columns are missing'')) =
      Inr (failing_pipeline (value_error ''columns are missing''))"
    and pressed: "button (scoring_raises (value_error ''columns are missing''))"
    by (simp_all add: scoring_raises_def)
  have raises: "failing_pipeline (value_error ''columns are missing'')
      (feature_engineering (input_data (widget_values
         (scoring_raises (value_error ''columns are missing''))))) =
      Inl (value_error ''columns are missing'')"
    by (simp add: failing_pipeline_def)
  have caught: "isinstance (value_error ''columns are missing'') ''Exception''"
    and shown: "exn_str (value_error ''columns are missing'') = ''columns are missing''"
    by (simp_all add: isinstance_def value_error_def)
  note facts = scoring_failure_surfaced [OF load pressed raises]
  have page: "app (scoring_raises (value_error ''columns are missing'')) =
      Inr [St_error (Prediction_failed ''columns are missing''), St_warning Check_input_format]"
    using conjunct1 [OF facts] caught shown by simp
  have no_result:
    "prediction_result (app (scoring_raises (value_error ''columns are missing''))) = []"
    by (rule conjunct2 [OF facts])
  from load pressed raises page no_result show ?thesis by blast
qed

end
